theory Spec2Isabelle
  imports Main
begin

section \<open>Strings of the host language\<close>

text \<open>
  The renderer is TypeScript. Its strings are modelled as HOL strings (lists of 8-bit
  characters), so the model covers ASCII text; case conversion is the ASCII one.
  Every string operation the source calls is written out here.
\<close>

definition nl :: string where
  "nl = [CHR 0x0A]"

fun string_of_nat :: "nat \<Rightarrow> string" where
  "string_of_nat n =
     (if n < 10 then [char_of (48 + n)]
      else string_of_nat (n div 10) @ [char_of (48 + n mod 10)])"

declare string_of_nat.simps [simp del]

text \<open>\<^verbatim>\<open>Array.prototype.join\<close>\<close>

fun join :: "string \<Rightarrow> string list \<Rightarrow> string" where
  "join sep [] = []"
| "join sep [x] = x"
| "join sep (x # y # ys) = x @ sep @ join sep (y # ys)"

text \<open>\<^verbatim>\<open>String.prototype.repeat\<close>\<close>

fun repeat :: "string \<Rightarrow> nat \<Rightarrow> string" where
  "repeat s 0 = []"
| "repeat s (Suc n) = s @ repeat s n"

text \<open>\<^verbatim>\<open>String.prototype.startsWith\<close> and \<^verbatim>\<open>String.prototype.includes\<close>\<close>

definition startsWith :: "string \<Rightarrow> string \<Rightarrow> bool" where
  "startsWith s pat = (take (length pat) s = pat)"

fun includesStr :: "string \<Rightarrow> string \<Rightarrow> bool" where
  "includesStr [] pat = (pat = [])"
| "includesStr (c # cs) pat = (startsWith (c # cs) pat \<or> includesStr cs pat)"

text \<open>
  \<^verbatim>\<open>String.prototype.replaceAll\<close> with a string pattern: one pass from left to right, each
  match replaced, the search resumed after the match. The source only calls it with
  a pattern that is not empty.
\<close>

fun replaceAll :: "string \<Rightarrow> string \<Rightarrow> string \<Rightarrow> string" where
  "replaceAll pat rep [] = []"
| "replaceAll pat rep (c # cs) =
     (if pat \<noteq> [] \<and> startsWith (c # cs) pat
      then rep @ replaceAll pat rep (drop (length pat - 1) cs)
      else c # replaceAll pat rep cs)"

text \<open>\<^verbatim>\<open>String.prototype.replace\<close> with a string pattern: the first match only.\<close>

fun replaceFirst :: "string \<Rightarrow> string \<Rightarrow> string \<Rightarrow> string" where
  "replaceFirst pat rep [] = []"
| "replaceFirst pat rep (c # cs) =
     (if pat \<noteq> [] \<and> startsWith (c # cs) pat
      then rep @ drop (length pat - 1) cs
      else c # replaceFirst pat rep cs)"

text \<open>Case conversion, on the letters of ASCII.\<close>

definition upperChar :: "char \<Rightarrow> char" where
  "upperChar c =
     (let n = (of_char c :: nat) in if 97 \<le> n \<and> n \<le> 122 then char_of (n - 32) else c)"

definition lowerChar :: "char \<Rightarrow> char" where
  "lowerChar c =
     (let n = (of_char c :: nat) in if 65 \<le> n \<and> n \<le> 90 then char_of (n + 32) else c)"

definition toUpperCase :: "string \<Rightarrow> string" where
  "toUpperCase s = map upperChar s"

definition toLowerCase :: "string \<Rightarrow> string" where
  "toLowerCase s = map lowerChar s"

text \<open>\<^verbatim>\<open>s.slice(0, 1).toUpperCase() + s.slice(1)\<close>\<close>

definition capitalize :: "string \<Rightarrow> string" where
  "capitalize s = toUpperCase (take 1 s) @ drop 1 s"

text \<open>\<^verbatim>\<open>String.prototype.trim\<close>, on the white space of ASCII.\<close>

definition isWhiteSpace :: "char \<Rightarrow> bool" where
  "isWhiteSpace c = (let n = (of_char c :: nat) in n = 32 \<or> (9 \<le> n \<and> n \<le> 13))"

definition trim :: "string \<Rightarrow> string" where
  "trim s = rev (dropWhile isWhiteSpace (rev (dropWhile isWhiteSpace s)))"

section \<open>The lexical record\<close>

record quote =
  q_text :: string
  q_reference :: string

datatype sense = Sense
  (s_definition: string)
  (s_tags: "string list")
  (s_examples: "string list")
  (s_quotes: "quote list")
  (s_synonyms: "string list")
  (s_antonyms: "string list")
  (s_translations: "string list")
  (s_subsenses: "sense list")

record pronunciation =
  p_type :: string
  p_text :: string
  p_tags :: "string list"

record form =
  f_word :: string
  f_tags :: "string list"

record language =
  l_code :: string
  l_name :: string

record language_entry =
  e_language :: language
  e_partOfSpeech :: string
  e_pronunciations :: "pronunciation list"
  e_forms :: "form list"
  e_senses :: "sense list"

record license =
  lic_name :: string
  lic_url :: string

record source =
  src_url :: string
  src_license :: license

record dictionary_entry =
  d_word :: string
  d_entries :: "language_entry list"
  d_source :: source

section \<open>Dictionary.renderSenses\<close>

text \<open>The loop over \<^verbatim>\<open>quotes\<close>, with its index \<open>i\<close>.\<close>

fun renderQuotes :: "string \<Rightarrow> nat \<Rightarrow> quote list \<Rightarrow> string" where
  "renderQuotes prefix i [] = []"
| "renderQuotes prefix i (q # qs) =
     prefix @ ''    - **Quote '' @ string_of_nat (i + 1) @ '':** '' @ q_text q
       @ '' - _'' @ q_reference q @ ''_'' @ nl
     @ renderQuotes prefix (i + 1) qs"

text \<open>
  The closure \<^verbatim>\<open>renderSubsenses\<close>. \<open>subsenseLines\<close> is the part of its loop body
  that does not recurse: the numbered line of the sense and the lines of its fields,
  appended to the text \<open>subMd\<close> built so far.
\<close>

definition subsenseLines :: "string \<Rightarrow> nat \<Rightarrow> sense \<Rightarrow> string \<Rightarrow> string" where
  "subsenseLines prefix idx s subMd =
     (let subMd = subMd @ prefix @ string_of_nat (idx + 1) @ ''. '' @ s_definition s @ nl;
          subMd = (if s_synonyms s \<noteq> []
                   then subMd @ prefix @ ''    - **Synonyms:** '' @ join '', '' (s_synonyms s) @ nl
                   else subMd);
          subMd = (if s_antonyms s \<noteq> []
                   then subMd @ prefix @ ''    - **Antonyms:** '' @ join '', '' (s_antonyms s) @ nl
                   else subMd);
          subMd = (if s_examples s \<noteq> []
                   then subMd @ prefix @ ''    - **Examples:** '' @ join ''; '' (s_examples s) @ nl
                   else subMd);
          subMd = (if s_quotes s \<noteq> [] then subMd @ renderQuotes prefix 0 (s_quotes s) else subMd)
      in subMd)"

text \<open>
  \<open>subsensesLoop\<close> is the \<^verbatim>\<open>forEach\<close> of \<^verbatim>\<open>renderSubsenses\<close>, with the length of the
  array, the index \<open>idx\<close> and the elements still to visit.
\<close>

fun subsensesLoop :: "nat \<Rightarrow> nat \<Rightarrow> nat \<Rightarrow> sense list \<Rightarrow> string \<Rightarrow> string" where
  "subsensesLoop indent len idx [] subMd = subMd"
| "subsensesLoop indent len idx (Sense d tg ex qs sy an tr subs # rest) subMd =
     subsensesLoop indent len (idx + 1) rest
       (subsenseLines (repeat ''    '' indent) idx (Sense d tg ex qs sy an tr subs) subMd
        @ (if subs \<noteq> [] then subsensesLoop (indent + 1) (length subs) 0 subs [] else [])
        @ (if idx + 1 = len then nl else []))"

definition renderSubsenses :: "sense list \<Rightarrow> nat \<Rightarrow> string" where
  "renderSubsenses subsenses indent = subsensesLoop indent (length subsenses) 0 subsenses []"

text \<open>The body of the \<^verbatim>\<open>forEach\<close> over the top-level senses, and the loop itself.\<close>

definition senseStep :: "nat \<Rightarrow> nat \<Rightarrow> sense \<Rightarrow> string \<Rightarrow> string" where
  "senseStep len j t md =
     (let md = md @ string_of_nat (j + 1) @ ''. '' @ s_definition t @ nl;
          md = (if s_examples t \<noteq> []
                then md @ ''    - **Examples:** '' @ join ''; '' (s_examples t) @ nl else md);
          md = (if s_quotes t \<noteq> [] then md @ renderQuotes [] 0 (s_quotes t) else md);
          md = (if s_synonyms t \<noteq> []
                then md @ ''    - **Synonyms:** '' @ join '', '' (s_synonyms t) @ nl else md);
          md = (if s_antonyms t \<noteq> []
                then md @ ''    - **Antonyms:** '' @ join '', '' (s_antonyms t) @ nl else md);
          md = (if s_subsenses t \<noteq> [] then md @ renderSubsenses (s_subsenses t) 2 else md);
          md = (if j + 1 = len then md @ nl @ nl else md)
      in md)"

fun sensesLoop :: "nat \<Rightarrow> nat \<Rightarrow> sense list \<Rightarrow> string \<Rightarrow> string" where
  "sensesLoop len j [] md = md"
| "sensesLoop len j (t # rest) md = sensesLoop len (j + 1) rest (senseStep len j t md)"

definition renderSenses :: "sense list \<Rightarrow> string" where
  "renderSenses senses =
     (if senses = [] then []
      else sensesLoop (length senses) 0 senses (''### Senses'' @ nl))"

section \<open>Objects used as dictionaries\<close>

text \<open>
  The source groups with plain objects (\<^verbatim>\<open>Record<string, ...>\<close>, created by \<^verbatim>\<open>{}\<close>). Such
  an object is modelled by its own properties in creation order, with the three facts
  of ECMAScript that the grouping code depends on:
  \<^item> reading \<^verbatim>\<open>obj[k]\<close> finds an own property, else a property inherited from
    \<^verbatim>\<open>Object.prototype\<close> (a function or an object, so a truthy value), else
    \<^verbatim>\<open>undefined\<close>;
  \<^item> \<^verbatim>\<open>obj[k] = v\<close> creates the own property at the end, or overwrites it in place;
  \<^item> \<^verbatim>\<open>Object.entries\<close> and \<^verbatim>\<open>Object.values\<close> list the own properties whose key is an
    array index first, in ascending numeric order, then the others in creation order.
\<close>

type_synonym 'v js_object = "(string \<times> 'v) list"

datatype 'v js_lookup = Own 'v | Inherited | Undefined

definition objectPrototypeNames :: "string list" where
  "objectPrototypeNames =
     [''constructor'', ''__defineGetter__'', ''__defineSetter__'', ''hasOwnProperty'',
      ''__lookupGetter__'', ''__lookupSetter__'', ''isPrototypeOf'', ''propertyIsEnumerable'',
      ''toString'', ''valueOf'', ''__proto__'', ''toLocaleString'']"

definition isDigit :: "char \<Rightarrow> bool" where
  "isDigit c = (let n = (of_char c :: nat) in 48 \<le> n \<and> n \<le> 57)"

definition digitsValue :: "string \<Rightarrow> nat" where
  "digitsValue k = foldl (\<lambda>a c. 10 * a + ((of_char c :: nat) - 48)) 0 k"

text \<open>An array index is the canonical decimal form of an integer from 0 to \<open>2\<^sup>3\<^sup>2 - 2\<close>.\<close>

definition isArrayIndex :: "string \<Rightarrow> bool" where
  "isArrayIndex k =
     (k \<noteq> [] \<and> list_all isDigit k \<and> (k = ''0'' \<or> 48 < (of_char (hd k) :: nat))
      \<and> digitsValue k < 2 ^ 32 - 1)"

definition js_get :: "'v js_object \<Rightarrow> string \<Rightarrow> 'v js_lookup" where
  "js_get obj k =
     (case map_of obj k of
        Some v \<Rightarrow> Own v
      | None \<Rightarrow> if k \<in> set objectPrototypeNames then Inherited else Undefined)"

definition js_set :: "'v js_object \<Rightarrow> string \<Rightarrow> 'v \<Rightarrow> 'v js_object" where
  "js_set obj k v =
     (if k \<in> set (map fst obj)
      then map (\<lambda>kv. if fst kv = k then (k, v) else kv) obj
      else obj @ [(k, v)])"

definition js_entries :: "'v js_object \<Rightarrow> (string \<times> 'v) list" where
  "js_entries obj =
     sort_key (\<lambda>kv. digitsValue (fst kv)) (filter (\<lambda>kv. isArrayIndex (fst kv)) obj)
     @ filter (\<lambda>kv. \<not> isArrayIndex (fst kv)) obj"

definition js_values :: "'v js_object \<Rightarrow> 'v list" where
  "js_values obj = map snd (js_entries obj)"

text \<open>
  A failed property access (\<^verbatim>\<open>undefined.push\<close>) throws; nothing in the source catches it.
\<close>

datatype error = TypeError

section \<open>Dictionary.renderPronunciations\<close>

record pron_group =
  pg_type :: string
  pg_text :: "string list"

text \<open>
  \<^verbatim>\<open>if (!grouped[tag]) grouped[tag] = { type: p.type, text: [] }; grouped[tag].text.push(p.text)\<close>.
  When \<^verbatim>\<open>grouped[tag]\<close> is inherited from \<^verbatim>\<open>Object.prototype\<close> it is truthy and has
  no \<^verbatim>\<open>text\<close>, so the \<^verbatim>\<open>push\<close> throws.
\<close>

definition addToBucket ::
  "string \<Rightarrow> pronunciation \<Rightarrow> pron_group js_object \<Rightarrow> error + pron_group js_object" where
  "addToBucket tag p grouped =
     (case js_get grouped tag of
        Inherited \<Rightarrow> Inl TypeError
      | Undefined \<Rightarrow> Inr (js_set grouped tag \<lparr>pg_type = p_type p, pg_text = [] @ [p_text p]\<rparr>)
      | Own g \<Rightarrow> Inr (js_set grouped tag (g\<lparr>pg_text := pg_text g @ [p_text p]\<rparr>)))"

fun groupTags ::
  "string list \<Rightarrow> pronunciation \<Rightarrow> pron_group js_object \<Rightarrow> error + pron_group js_object" where
  "groupTags [] p grouped = Inr grouped"
| "groupTags (tag # tags) p grouped =
     (case addToBucket tag p grouped of
        Inl err \<Rightarrow> Inl err
      | Inr grouped' \<Rightarrow> groupTags tags p grouped')"

definition groupPronunciation ::
  "pronunciation \<Rightarrow> pron_group js_object \<Rightarrow> error + pron_group js_object" where
  "groupPronunciation p grouped =
     (if p_tags p \<noteq> [] then groupTags (p_tags p) p grouped else addToBucket ''-'' p grouped)"

fun groupPronunciations ::
  "pronunciation list \<Rightarrow> pron_group js_object \<Rightarrow> error + pron_group js_object" where
  "groupPronunciations [] grouped = Inr grouped"
| "groupPronunciations (p # ps) grouped =
     (case groupPronunciation p grouped of
        Inl err \<Rightarrow> Inl err
      | Inr grouped' \<Rightarrow> groupPronunciations ps grouped')"

definition pronunciationRow :: "string \<times> pron_group \<Rightarrow> string" where
  "pronunciationRow rg =
     ''| '' @ fst rg @ '' | '' @ join '', '' (pg_text (snd rg)) @ '' | '' @ pg_type (snd rg)
     @ '' |'' @ nl"

definition renderPronunciations :: "pronunciation list \<Rightarrow> error + string" where
  "renderPronunciations pronunciations =
     (if pronunciations = [] then Inr []
      else case groupPronunciations pronunciations [] of
        Inl err \<Rightarrow> Inl err
      | Inr grouped \<Rightarrow>
          if js_entries grouped = [] then Inr []
          else
            let md = ''| Dialect | Pronunciation | Phonetic System | '' @ nl @ ''|---|---|---|'' @ nl;
                md = fold (\<lambda>rg md. md @ pronunciationRow rg) (js_entries grouped) md;
                md = md @ nl @ nl
            in Inr md)"

section \<open>Dictionary.renderForms\<close>

definition invalidTags :: "string list" where
  "invalidTags = [''inflection-template'', ''table-tags'', ''class'']"

definition complexConjugationsLanguages :: "string list" where
  "complexConjugationsLanguages =
     [''ca'', ''cs'', ''fr'', ''de'', ''el'', ''hu'', ''it'', ''la'', ''pt'', ''ro'', ''ru'', ''sh'',
      ''es'', ''nl'']"

definition nonfiniteMoods :: "string list" where
  "nonfiniteMoods = [''gerund'', ''participle'', ''infinitive'']"

definition moods :: "string list" where
  "moods = [''indicative'', ''subjunctive-i'', ''subjunctive-ii'', ''subjunctive'', ''imperative'']"

definition tenses :: "string list" where
  "tenses =
     [''future-i'', ''future-ii'', ''present'', ''imperfect'', ''preterite'', ''future'',
      ''conditional'', ''perfect'', ''pluperfect'', ''past perfect'', ''future perfect'',
      ''conditional perfect'']"

definition numbers :: "string list" where
  "numbers = [''singular'', ''plural'']"

definition persons :: "string list" where
  "persons = [''first-person'', ''second-person'', ''third-person'']"

text \<open>\<^verbatim>\<open>f.tags.some(tag => invalidTags.includes(tag))\<close>\<close>

definition hasInvalidTag :: "form \<Rightarrow> bool" where
  "hasInvalidTag f = list_ex (\<lambda>tag. tag \<in> set invalidTags) (f_tags f)"

text \<open>
  The three \<^verbatim>\<open>for ... of\<close> loops that return early:
  \<^verbatim>\<open>if (f.word.includes(t.toLowerCase())) return\<close>.
\<close>

definition wordHasKeyword :: "form \<Rightarrow> bool" where
  "wordHasKeyword f =
     (list_ex (\<lambda>t. includesStr (f_word f) (toLowerCase t)) tenses
      \<or> list_ex (\<lambda>n. includesStr (f_word f) (toLowerCase n)) numbers
      \<or> list_ex (\<lambda>p. includesStr (f_word f) (toLowerCase p)) persons)"

text \<open>\<^verbatim>\<open>vocabulary.find(v => f.tags.includes(v)) || ""\<close>\<close>

definition findTag :: "string list \<Rightarrow> form \<Rightarrow> string" where
  "findTag vocabulary f =
     (case find (\<lambda>v. v \<in> set (f_tags f)) vocabulary of Some v \<Rightarrow> v | None \<Rightarrow> [])"

definition formMood :: "form \<Rightarrow> string" where
  "formMood f =
     (case find (\<lambda>m. m \<in> set (f_tags f)) moods of
        Some m \<Rightarrow> m
      | None \<Rightarrow>
          (case find (\<lambda>nm. nm \<in> set (f_tags f)) nonfiniteMoods of
             Some nm \<Rightarrow> ''non-finite''
           | None \<Rightarrow> ''indicative''))"

text \<open>
  \<^verbatim>\<open>if (!obj[k]) obj[k] = d\<close>, then the update \<open>u\<close> of \<^verbatim>\<open>obj[k]\<close>. The keys of the four
  levels are words of the vocabularies above, \<^verbatim>\<open>"non-finite"\<close> or the empty string; none
  of them is inherited from \<^verbatim>\<open>Object.prototype\<close> (lemma \<open>grouping_keys_plain\<close> below), so
  a key that is not an own property reads as \<^verbatim>\<open>undefined\<close>.
\<close>

definition js_update :: "string \<Rightarrow> 'v \<Rightarrow> ('v \<Rightarrow> 'v) \<Rightarrow> 'v js_object \<Rightarrow> 'v js_object" where
  "js_update k d u obj =
     (case js_get obj k of
        Own v \<Rightarrow> js_set obj k (u v)
      | Inherited \<Rightarrow> js_set obj k (u d)
      | Undefined \<Rightarrow> js_set obj k (u d))"

type_synonym persons_obj = "form list js_object"
type_synonym numbers_obj = "persons_obj js_object"
type_synonym tenses_obj = "numbers_obj js_object"
type_synonym moods_obj = "tenses_obj js_object"

text \<open>The body of the first \<^verbatim>\<open>forms.forEach\<close> of the complex branch.\<close>

definition groupForm :: "form \<Rightarrow> moods_obj \<Rightarrow> moods_obj" where
  "groupForm f grouped =
     (if f_tags f = [] then grouped
      else if hasInvalidTag f then grouped
      else if wordHasKeyword f then grouped
      else
        let mood = formMood f;
            tense = findTag tenses f;
            number = findTag numbers f;
            person = findTag persons f
        in js_update mood []
             (js_update tense [] (js_update number [] (js_update person [] (\<lambda>fs. fs @ [f]))))
             grouped)"

text \<open>
  The rendering loops share the text \<^verbatim>\<open>md\<close> and the array \<^verbatim>\<open>rows\<close> of the rows already
  written; both are threaded through as a pair.
\<close>

type_synonym render_state = "string \<times> string list"

text \<open>\<^verbatim>\<open>if (!rows.includes(row)) { md += row; rows.push(row); }\<close>\<close>

definition emitRow :: "string \<Rightarrow> render_state \<Rightarrow> render_state" where
  "emitRow row st =
     (if row \<in> set (snd st) then st else (fst st @ row, snd st @ [row]))"

definition nonfiniteRow :: "form \<Rightarrow> string" where
  "nonfiniteRow f = ''| '' @ join '', '' (f_tags f) @ '' | '' @ f_word f @ '' |'' @ nl"

definition finiteRow :: "string \<Rightarrow> string \<Rightarrow> form \<Rightarrow> string" where
  "finiteRow person number f = ''| '' @ person @ '' '' @ number @ '' | '' @ f_word f @ '' |'' @ nl"

text \<open>\<^verbatim>\<open>rows.length = 0\<close>\<close>

definition clearRows :: "render_state \<Rightarrow> render_state" where
  "clearRows st = (fst st, [])"

definition renderNonfiniteTense :: "string \<Rightarrow> string \<times> numbers_obj \<Rightarrow> render_state \<Rightarrow> render_state" where
  "renderNonfiniteTense mood tn st =
     (if fst tn \<noteq> [] \<and> mood \<noteq> ''imperative'' then st
      else
        clearRows
          (fold (\<lambda>np. fold (\<lambda>pf. fold (\<lambda>f. emitRow (nonfiniteRow f)) (snd pf))
                         (js_entries (snd np)))
             (js_entries (snd tn)) st))"

text \<open>
  In \<^verbatim>\<open>${tense || mood === 'imperative' ? "present" : ""}\<close> the conditional operator binds
  weaker than \<^verbatim>\<open>||\<close>: the condition is \<^verbatim>\<open>tense || mood === 'imperative'\<close>, and a string
  is truthy when it is not empty.
\<close>

definition tenseHeading :: "string \<Rightarrow> string \<Rightarrow> string" where
  "tenseHeading mood tense =
     ''##### Tense: '' @ (if tense \<noteq> [] \<or> mood = ''imperative'' then ''present'' else []) @ nl"

definition renderFiniteTense :: "string \<Rightarrow> string \<times> numbers_obj \<Rightarrow> render_state \<Rightarrow> render_state" where
  "renderFiniteTense mood tn st =
     (if fst tn = [] \<and> mood \<noteq> ''imperative'' then st
      else
        let st = (fst st @ tenseHeading mood (fst tn), snd st);
            st = (fst st @ ''| Person & Number | Form |'' @ nl @ ''|---|---|'' @ nl, snd st)
        in clearRows
             (fold (\<lambda>np. fold (\<lambda>pf. fold (\<lambda>f. emitRow (finiteRow (fst pf) (fst np) f)) (snd pf))
                            (js_entries (snd np)))
                (js_entries (snd tn)) st))"

definition renderMood :: "string \<times> tenses_obj \<Rightarrow> render_state \<Rightarrow> render_state" where
  "renderMood mt st =
     (let mood = fst mt;
          nonFinite = (mood = ''non-finite'');
          st = (fst st @ ''#### '' @ (if nonFinite then ''Non-finite forms'' else ''Mood: '' @ mood)
                  @ nl, snd st);
          st = (if nonFinite then (fst st @ ''| Name | Form |'' @ nl @ ''|---|---|'' @ nl, snd st)
                else st);
          st = fold (\<lambda>tn. if nonFinite then renderNonfiniteTense mood tn
                          else renderFiniteTense mood tn)
                 (js_entries (snd mt)) st
      in (fst st @ nl, snd st))"

text \<open>The body of the \<^verbatim>\<open>forms.forEach\<close> of the simple branch.\<close>

definition renderBullet :: "form \<Rightarrow> string \<Rightarrow> string" where
  "renderBullet f md =
     (if \<not> hasInvalidTag f
      then md @ ''- '' @ f_word f @ '' ('' @ join '', '' (f_tags f) @ '')'' @ nl
      else md)"

text \<open>
  \<open>language\<close> is the field \<^verbatim>\<open>this.language\<close> of the \<^verbatim>\<open>Dictionary\<close>, the code the lookup was
  made with.
\<close>

definition renderForms :: "string \<Rightarrow> form list \<Rightarrow> string" where
  "renderForms language forms =
     (if forms = [] then []
      else
        let md = ''### Forms'' @ nl;
            md = (if language \<in> set complexConjugationsLanguages
                  then fst (fold renderMood (js_entries (fold groupForm forms [])) (md, []))
                  else fold renderBullet forms md)
        in md @ nl @ nl)"

section \<open>Dictionary.renderMarkdown\<close>

record grouped_entry =
  g_language :: language
  g_partOfSpeech :: string
  g_pronunciations :: "pronunciation list"
  g_forms :: "form list"
  g_senses :: "sense list"

text \<open>
  The body of \<^verbatim>\<open>entry.entries.forEach\<close>. When \<^verbatim>\<open>groupedEntries[e.partOfSpeech]\<close> is
  inherited from \<^verbatim>\<open>Object.prototype\<close> it is truthy and has no \<^verbatim>\<open>pronunciations\<close>, so the
  first \<^verbatim>\<open>push\<close> throws.
\<close>

definition groupEntry ::
  "language_entry \<Rightarrow> grouped_entry js_object \<Rightarrow> error + grouped_entry js_object" where
  "groupEntry e groupedEntries =
     (case js_get groupedEntries (e_partOfSpeech e) of
        Inherited \<Rightarrow> Inl TypeError
      | Undefined \<Rightarrow>
          Inr (js_set groupedEntries (e_partOfSpeech e)
                 \<lparr>g_language = e_language e, g_partOfSpeech = e_partOfSpeech e,
                  g_pronunciations = [] @ e_pronunciations e, g_forms = [] @ e_forms e,
                  g_senses = [] @ e_senses e\<rparr>)
      | Own g \<Rightarrow>
          Inr (js_set groupedEntries (e_partOfSpeech e)
                 (g\<lparr>g_pronunciations := g_pronunciations g @ e_pronunciations e,
                    g_forms := g_forms g @ e_forms e,
                    g_senses := g_senses g @ e_senses e\<rparr>)))"

fun groupEntries ::
  "language_entry list \<Rightarrow> grouped_entry js_object \<Rightarrow> error + grouped_entry js_object" where
  "groupEntries [] groupedEntries = Inr groupedEntries"
| "groupEntries (e # es) groupedEntries =
     (case groupEntry e groupedEntries of
        Inl err \<Rightarrow> Inl err
      | Inr groupedEntries' \<Rightarrow> groupEntries es groupedEntries')"

text \<open>The body of \<^verbatim>\<open>Object.values(groupedEntries).forEach\<close>, and the loop.\<close>

definition renderSection :: "string \<Rightarrow> grouped_entry \<Rightarrow> string \<Rightarrow> error + string" where
  "renderSection language e md =
     (let md = md @ ''## '' @ capitalize (g_partOfSpeech e) @ nl
      in case renderPronunciations (g_pronunciations e) of
           Inl err \<Rightarrow> Inl err
         | Inr table \<Rightarrow>
             Inr (md @ table @ renderSenses (g_senses e) @ renderForms language (g_forms e)))"

fun renderSections :: "string \<Rightarrow> grouped_entry list \<Rightarrow> string \<Rightarrow> error + string" where
  "renderSections language [] md = Inr md"
| "renderSections language (e # es) md =
     (case renderSection language e md of
        Inl err \<Rightarrow> Inl err
      | Inr md' \<Rightarrow> renderSections language es md')"

text \<open>The field \<^verbatim>\<open>urlWord\<close> that \<^verbatim>\<open>renderMarkdown\<close> sets.\<close>

definition urlWord :: "dictionary_entry \<Rightarrow> string" where
  "urlWord entry = replaceAll '' '' ''%20'' (src_url (d_source entry))"

definition header :: "dictionary_entry \<Rightarrow> string" where
  "header entry =
     (let md = [];
          md = md @ ''# '' @ capitalize (d_word entry) @ nl;
          md = md @ ''Source: ['' @ urlWord entry @ '']('' @ urlWord entry @ '')'' @ nl @ nl
      in md)"

text \<open>The text \<^verbatim>\<open>md\<close> of \<^verbatim>\<open>renderMarkdown\<close> before its last statement.\<close>

definition document :: "string \<Rightarrow> dictionary_entry \<Rightarrow> error + string" where
  "document language entry =
     (case groupEntries (d_entries entry) [] of
        Inl err \<Rightarrow> Inl err
      | Inr groupedEntries \<Rightarrow> renderSections language (js_values groupedEntries) (header entry))"

definition renderMarkdown :: "string \<Rightarrow> dictionary_entry \<Rightarrow> error + string" where
  "renderMarkdown language entry =
     (case document language entry of
        Inl err \<Rightarrow> Inl err
      | Inr md \<Rightarrow> Inr (replaceAll ''..'' ''.'' md))"

section \<open>Favorite\<close>

record favorite_entry =
  fav_language :: string
  fav_word :: string
  fav_markdown :: string
  fav_url :: string

definition formatText :: "string \<Rightarrow> string" where
  "formatText t = replaceFirst ''  '' '' '' (toLowerCase (trim t))"

text \<open>
  The item \<^verbatim>\<open>"favorites"\<close> of the local storage: absent, or the stored list.
\<close>

type_synonym local_storage = "favorite_entry list option"

definition getEntries :: "local_storage \<Rightarrow> favorite_entry list" where
  "getEntries storage = (case storage of None \<Rightarrow> [] | Some entries \<Rightarrow> entries)"

text \<open>
  \<^verbatim>\<open>Array.prototype.sort\<close> is stable. The comparison \<^verbatim>\<open>localeCompare\<close> depends on the
  locale of the host, so it is a parameter: a negative result puts the first argument
  before the second.
\<close>

fun insertBy :: "('a \<Rightarrow> 'a \<Rightarrow> int) \<Rightarrow> 'a \<Rightarrow> 'a list \<Rightarrow> 'a list" where
  "insertBy cmp x [] = [x]"
| "insertBy cmp x (y # ys) = (if cmp x y < 0 then x # y # ys else y # insertBy cmp x ys)"

definition sortBy :: "('a \<Rightarrow> 'a \<Rightarrow> int) \<Rightarrow> 'a list \<Rightarrow> 'a list" where
  "sortBy cmp xs = foldl (\<lambda>sorted x. insertBy cmp x sorted) [] xs"

definition addEntry ::
  "(string \<Rightarrow> string \<Rightarrow> int) \<Rightarrow> local_storage \<Rightarrow> string \<Rightarrow> string \<Rightarrow> string \<Rightarrow> string
     \<Rightarrow> local_storage" where
  "addEntry localeCompare storage language word markdown url =
     (let favorites = getEntries storage;
          exists = (find (\<lambda>fav. fav_language fav = language \<and> fav_word fav = word) favorites
                    \<noteq> None)
      in if \<not> exists
         then
           let favorites = favorites @ [\<lparr>fav_language = formatText language,
                                         fav_word = formatText word,
                                         fav_markdown = markdown, fav_url = url\<rparr>];
               favorites = sortBy (\<lambda>a b. localeCompare (fav_word a) (fav_word b)) favorites
           in Some favorites
         else storage)"

definition removeEntry :: "local_storage \<Rightarrow> string \<Rightarrow> string \<Rightarrow> local_storage" where
  "removeEntry storage language word =
     Some (filter (\<lambda>fav. fav_language fav \<noteq> language \<or> fav_word fav \<noteq> word) (getEntries storage))"

definition exist :: "local_storage \<Rightarrow> string \<Rightarrow> string \<Rightarrow> bool" where
  "exist storage language word =
     list_ex (\<lambda>fav. fav_language fav = language \<and> fav_word fav = word) (getEntries storage)"

section \<open>Reference functions\<close>

text \<open>
  The functions of this section are not part of the program. They say, in the words of
  the specification, what the loops above are expected to compute; the theorems below
  compare the two.
\<close>

text \<open>The distinct elements of a list, in the order of their first occurrence.\<close>

primrec firstOccurrences :: "'a list \<Rightarrow> 'a list" where
  "firstOccurrences [] = []"
| "firstOccurrences (x # xs) = x # filter (\<lambda>y. y \<noteq> x) (firstOccurrences xs)"

text \<open>
  The rows of all the forms of one tense bucket, in the order of the nested
  \<^verbatim>\<open>Object.entries\<close> loops, duplicates included.
\<close>

definition finiteRows :: "numbers_obj \<Rightarrow> string list" where
  "finiteRows numbersObj =
     concat (map (\<lambda>np. concat (map (\<lambda>pf. map (finiteRow (fst pf) (fst np)) (snd pf))
                                   (js_entries (snd np))))
               (js_entries numbersObj))"

definition nonfiniteRows :: "numbers_obj \<Rightarrow> string list" where
  "nonfiniteRows numbersObj =
     concat (map (\<lambda>np. concat (map (\<lambda>pf. map nonfiniteRow (snd pf)) (js_entries (snd np))))
               (js_entries numbersObj))"

text \<open>
  The table of one tense bucket of a finite mood: nothing for a skipped bucket, else the
  sub-heading, the table header and the distinct rows of this bucket.
\<close>

definition tenseTable :: "string \<Rightarrow> string \<times> numbers_obj \<Rightarrow> string" where
  "tenseTable mood tn =
     (if fst tn = [] \<and> mood \<noteq> ''imperative'' then []
      else tenseHeading mood (fst tn) @ ''| Person & Number | Form |'' @ nl @ ''|---|---|'' @ nl
           @ concat (firstOccurrences (finiteRows (snd tn))))"

definition nonfiniteTable :: "string \<times> numbers_obj \<Rightarrow> string" where
  "nonfiniteTable tn =
     (if fst tn \<noteq> [] then [] else concat (firstOccurrences (nonfiniteRows (snd tn))))"

definition moodSection :: "string \<times> tenses_obj \<Rightarrow> string" where
  "moodSection mt =
     (if fst mt = ''non-finite''
      then ''#### Non-finite forms'' @ nl @ ''| Name | Form |'' @ nl @ ''|---|---|'' @ nl
           @ concat (map nonfiniteTable (js_entries (snd mt))) @ nl
      else ''#### Mood: '' @ fst mt @ nl
           @ concat (map (tenseTable (fst mt)) (js_entries (snd mt))) @ nl)"

text \<open>The bullet of one form in the simple branch.\<close>

definition bulletLine :: "form \<Rightarrow> string" where
  "bulletLine f = ''- '' @ f_word f @ '' ('' @ join '', '' (f_tags f) @ '')'' @ nl"

text \<open>A form of the first person singular, with its mood and tense tags.\<close>

abbreviation firstSingular :: "string \<Rightarrow> string \<Rightarrow> string \<Rightarrow> form" where
  "firstSingular w m t \<equiv> \<lparr>f_word = w, f_tags = [m, t, ''first-person'', ''singular'']\<rparr>"

text \<open>
  The lines of the fields of a nested sense and of a top-level sense, in the order in
  which the two loops write them.
\<close>

definition nestedFields :: "string \<Rightarrow> sense \<Rightarrow> string" where
  "nestedFields prefix s =
     (if s_synonyms s \<noteq> [] then prefix @ ''    - **Synonyms:** '' @ join '', '' (s_synonyms s) @ nl
      else [])
     @ (if s_antonyms s \<noteq> [] then prefix @ ''    - **Antonyms:** '' @ join '', '' (s_antonyms s) @ nl
        else [])
     @ (if s_examples s \<noteq> [] then prefix @ ''    - **Examples:** '' @ join ''; '' (s_examples s) @ nl
        else [])
     @ renderQuotes prefix 0 (s_quotes s)"

definition topFields :: "sense \<Rightarrow> string" where
  "topFields t =
     (if s_examples t \<noteq> [] then ''    - **Examples:** '' @ join ''; '' (s_examples t) @ nl else [])
     @ renderQuotes [] 0 (s_quotes t)
     @ (if s_synonyms t \<noteq> [] then ''    - **Synonyms:** '' @ join '', '' (s_synonyms t) @ nl else [])
     @ (if s_antonyms t \<noteq> [] then ''    - **Antonyms:** '' @ join '', '' (s_antonyms t) @ nl else [])"

text \<open>
  One item of the outline at a nesting level: \<open>4 * indent\<close> spaces, the position in its
  own list counted from 1, the definition, the fields, the subsenses one level deeper,
  and a blank line after the last item of the list.
\<close>

definition spaces :: "nat \<Rightarrow> string" where
  "spaces n = replicate n CHR '' ''"

definition subsenseItem :: "nat \<Rightarrow> nat \<Rightarrow> nat \<times> sense \<Rightarrow> string" where
  "subsenseItem indent len is =
     spaces (4 * indent) @ string_of_nat (fst is + 1) @ ''. '' @ s_definition (snd is) @ nl
     @ nestedFields (spaces (4 * indent)) (snd is)
     @ renderSubsenses (s_subsenses (snd is)) (indent + 1)
     @ (if fst is + 1 = len then nl else [])"

definition senseItem :: "nat \<Rightarrow> nat \<times> sense \<Rightarrow> string" where
  "senseItem len jt =
     string_of_nat (fst jt + 1) @ ''. '' @ s_definition (snd jt) @ nl
     @ topFields (snd jt)
     @ renderSubsenses (s_subsenses (snd jt)) 2
     @ (if fst jt + 1 = len then nl @ nl else [])"

text \<open>
  A key that \<^verbatim>\<open>Object.entries\<close> lists in creation order and that does not name a property
  inherited from \<^verbatim>\<open>Object.prototype\<close>.
\<close>

definition plainKey :: "string \<Rightarrow> bool" where
  "plainKey k = (\<not> isArrayIndex k \<and> k \<notin> set objectPrototypeNames)"

text \<open>
  The grouping step that \<^verbatim>\<open>renderMarkdown\<close> and \<^verbatim>\<open>renderPronunciations\<close> have in common:
  create the group of a key from the first item, extend it with every later item.
  \<open>groupedBy\<close> is the expected result: one group per distinct key, in the order of first
  occurrence, each built from the items of its key in input order.
\<close>

definition groupStep ::
  "('a \<Rightarrow> 'v) \<Rightarrow> ('v \<Rightarrow> 'a \<Rightarrow> 'v) \<Rightarrow> string \<times> 'a \<Rightarrow> 'v js_object \<Rightarrow> error + 'v js_object" where
  "groupStep init add kx obj =
     (case js_get obj (fst kx) of
        Inherited \<Rightarrow> Inl TypeError
      | Undefined \<Rightarrow> Inr (js_set obj (fst kx) (init (snd kx)))
      | Own v \<Rightarrow> Inr (js_set obj (fst kx) (add v (snd kx))))"

fun groupAll ::
  "('a \<Rightarrow> 'v) \<Rightarrow> ('v \<Rightarrow> 'a \<Rightarrow> 'v) \<Rightarrow> (string \<times> 'a) list \<Rightarrow> 'v js_object
     \<Rightarrow> error + 'v js_object" where
  "groupAll init add [] obj = Inr obj"
| "groupAll init add (kx # rest) obj =
     (case groupStep init add kx obj of
        Inl err \<Rightarrow> Inl err
      | Inr obj' \<Rightarrow> groupAll init add rest obj')"

definition itemsOf :: "string \<Rightarrow> (string \<times> 'a) list \<Rightarrow> 'a list" where
  "itemsOf k stream = map snd (filter (\<lambda>kx. fst kx = k) stream)"

definition merged :: "('a \<Rightarrow> 'v) \<Rightarrow> ('v \<Rightarrow> 'a \<Rightarrow> 'v) \<Rightarrow> 'a list \<Rightarrow> 'v" where
  "merged init add xs = foldl add (init (hd xs)) (tl xs)"

definition groupedBy ::
  "('a \<Rightarrow> 'v) \<Rightarrow> ('v \<Rightarrow> 'a \<Rightarrow> 'v) \<Rightarrow> (string \<times> 'a) list \<Rightarrow> 'v js_object" where
  "groupedBy init add stream =
     map (\<lambda>k. (k, merged init add (itemsOf k stream))) (firstOccurrences (map fst stream))"

text \<open>
  The group of a part of speech: the language of the first entry with that tag, and the
  lists of all the entries with that tag, concatenated in input order.
\<close>

definition entriesOf :: "string \<Rightarrow> language_entry list \<Rightarrow> language_entry list" where
  "entriesOf k es = filter (\<lambda>e. e_partOfSpeech e = k) es"

definition mergedEntry :: "language_entry list \<Rightarrow> string \<Rightarrow> grouped_entry" where
  "mergedEntry es k =
     \<lparr>g_language = e_language (hd (entriesOf k es)),
      g_partOfSpeech = k,
      g_pronunciations = concat (map e_pronunciations (entriesOf k es)),
      g_forms = concat (map e_forms (entriesOf k es)),
      g_senses = concat (map e_senses (entriesOf k es))\<rparr>"

definition newGroup :: "language_entry \<Rightarrow> grouped_entry" where
  "newGroup e =
     \<lparr>g_language = e_language e, g_partOfSpeech = e_partOfSpeech e,
      g_pronunciations = [] @ e_pronunciations e, g_forms = [] @ e_forms e,
      g_senses = [] @ e_senses e\<rparr>"

definition extendGroup :: "grouped_entry \<Rightarrow> language_entry \<Rightarrow> grouped_entry" where
  "extendGroup g e =
     g\<lparr>g_pronunciations := g_pronunciations g @ e_pronunciations e,
       g_forms := g_forms g @ e_forms e,
       g_senses := g_senses g @ e_senses e\<rparr>"

definition keyed :: "language_entry list \<Rightarrow> (string \<times> language_entry) list" where
  "keyed es = map (\<lambda>e. (e_partOfSpeech e, e)) es"

text \<open>
  The bucket keys of a pronunciation (its tags, or the sentinel), the sequence of all
  (key, pronunciation) assignments in input order, and the table row of a key.
\<close>

definition bucketKeys :: "pronunciation \<Rightarrow> string list" where
  "bucketKeys p = (if p_tags p = [] then [''-''] else p_tags p)"

definition assignments :: "pronunciation list \<Rightarrow> (string \<times> pronunciation) list" where
  "assignments ps = concat (map (\<lambda>p. map (\<lambda>tag. (tag, p)) (bucketKeys p)) ps)"

definition bucketRow :: "pronunciation list \<Rightarrow> string \<Rightarrow> string" where
  "bucketRow ps k =
     ''| '' @ k @ '' | '' @ join '', '' (map p_text (itemsOf k (assignments ps)))
     @ '' | '' @ p_type (hd (itemsOf k (assignments ps))) @ '' |'' @ nl"

definition newBucket :: "pronunciation \<Rightarrow> pron_group" where
  "newBucket p = \<lparr>pg_type = p_type p, pg_text = [] @ [p_text p]\<rparr>"

definition extendBucket :: "pron_group \<Rightarrow> pronunciation \<Rightarrow> pron_group" where
  "extendBucket g p = g\<lparr>pg_text := pg_text g @ [p_text p]\<rparr>"

text \<open>Sample inputs.\<close>

abbreviation bare :: "string \<Rightarrow> sense list \<Rightarrow> sense" where
  "bare d subs \<equiv> Sense d [] [] [] [] [] [] subs"

abbreviation pron :: "string \<Rightarrow> string \<Rightarrow> string list \<Rightarrow> pronunciation" where
  "pron ty tx tg \<equiv> \<lparr>p_type = ty, p_text = tx, p_tags = tg\<rparr>"

abbreviation entryOf :: "string \<Rightarrow> sense list \<Rightarrow> language_entry" where
  "entryOf pos ss \<equiv>
     \<lparr>e_language = \<lparr>l_code = ''en'', l_name = ''English''\<rparr>, e_partOfSpeech = pos,
      e_pronunciations = [], e_forms = [], e_senses = ss\<rparr>"

abbreviation recordOf :: "string \<Rightarrow> language_entry list \<Rightarrow> dictionary_entry" where
  "recordOf w es \<equiv>
     \<lparr>d_word = w, d_entries = es,
      d_source = \<lparr>src_url = ''u'', src_license = \<lparr>lic_name = ''X'', lic_url = ''y''\<rparr>\<rparr>\<rparr>"

section \<open>Empty inputs\<close>

text \<open>
  Claim C8. Empty inputs give empty output and no error: no pronunciations, no forms and
  no senses each render to the empty string, and a record without entries renders to
  the title line and the source line alone (after the closing replacement of the
  renderer).
\<close>

theorem empty_inputs_render_empty:
  "renderPronunciations [] = Inr []
   \<and> renderForms language [] = []
   \<and> renderSenses [] = []
   \<and> renderMarkdown language \<lparr>d_word = w, d_entries = [], d_source = src\<rparr>
       = Inr (replaceAll ''..'' ''.''
               (''# '' @ capitalize w @ nl
                @ ''Source: ['' @ replaceAll '' '' ''%20'' (src_url src) @ '']('' 
                @ replaceAll '' '' ''%20'' (src_url src) @ '')'' @ nl @ nl))"
  by (simp add: renderPronunciations_def renderForms_def renderSenses_def renderMarkdown_def
      document_def js_values_def js_entries_def header_def urlWord_def)

section \<open>Properties of the form renderer\<close>

subsection \<open>Enumeration order of the grouped forms\<close>

lemma js_entries_plain:
  "list_all (\<lambda>kv. \<not> isArrayIndex (fst kv)) obj \<Longrightarrow> js_entries obj = obj"
  by (simp add: js_entries_def list_all_iff)

lemma not_index_vocabulary:
  "\<not> isArrayIndex []"
  "\<not> isArrayIndex ''non-finite''"
  "\<not> isArrayIndex ''indicative''"
  "\<not> isArrayIndex ''subjunctive''"
  "\<not> isArrayIndex ''imperative''"
  "\<not> isArrayIndex ''preterite''"
  "\<not> isArrayIndex ''present''"
  "\<not> isArrayIndex ''imperfect''"
  "\<not> isArrayIndex ''singular''"
  "\<not> isArrayIndex ''plural''"
  "\<not> isArrayIndex ''first-person''"
  "\<not> isArrayIndex ''second-person''"
  "\<not> isArrayIndex ''third-person''"
  by (simp_all add: isArrayIndex_def isDigit_def)

text \<open>
  The keys under which \<open>groupForm\<close> files a form are plain keys, whatever the form: the
  lookup of such a key never reaches \<^verbatim>\<open>Object.prototype\<close>, and the four levels are
  enumerated in creation order.
\<close>

lemma vocabulary_plain:
  "list_all plainKey moods" "list_all plainKey tenses" "list_all plainKey numbers"
  "list_all plainKey persons" "plainKey ''non-finite''" "plainKey []"
  by (simp_all add: plainKey_def isArrayIndex_def isDigit_def objectPrototypeNames_def
      moods_def tenses_def numbers_def persons_def)

lemma findTag_cases: "findTag vocabulary f = [] \<or> findTag vocabulary f \<in> set vocabulary"
  by (auto simp add: findTag_def find_Some_iff split: option.splits)

lemma formMood_cases:
  "formMood f = ''non-finite'' \<or> formMood f = ''indicative'' \<or> formMood f \<in> set moods"
  by (auto simp add: formMood_def find_Some_iff split: option.splits)

lemma grouping_keys_plain:
  "plainKey (formMood f)" "plainKey (findTag tenses f)" "plainKey (findTag numbers f)"
  "plainKey (findTag persons f)"
proof -
  have indicative: "plainKey ''indicative''"
    using vocabulary_plain(1) by (simp add: moods_def)
  show "plainKey (formMood f)"
    using formMood_cases [of f] vocabulary_plain(1,5) indicative
    by (auto simp add: list_all_iff)
  show "plainKey (findTag tenses f)"
    using findTag_cases [of tenses f] vocabulary_plain(2,6) by (auto simp add: list_all_iff)
  show "plainKey (findTag numbers f)"
    using findTag_cases [of numbers f] vocabulary_plain(3,6) by (auto simp add: list_all_iff)
  show "plainKey (findTag persons f)"
    using findTag_cases [of persons f] vocabulary_plain(4,6) by (auto simp add: list_all_iff)
qed

subsection \<open>The rows written for one bucket\<close>

lemma set_firstOccurrences [simp]: "set (firstOccurrences xs) = set xs"
  by (induction xs) auto

lemma distinct_firstOccurrences [simp]: "distinct (firstOccurrences xs)"
  by (induction xs) auto

lemma firstOccurrences_snoc:
  "firstOccurrences (xs @ [x])
   = (if x \<in> set xs then firstOccurrences xs else firstOccurrences xs @ [x])"
  by (induction xs) auto

lemma fold_emitRow:
  "fold emitRow rs (md, seen) =
     (md @ concat (filter (\<lambda>r. r \<notin> set seen) (firstOccurrences rs)),
      seen @ filter (\<lambda>r. r \<notin> set seen) (firstOccurrences rs))"
proof (induction rs arbitrary: md seen)
  case Nil
  then show ?case by simp
next
  case (Cons r rs)
  have step: "fold emitRow (r # rs) (md, seen) = fold emitRow rs (emitRow r (md, seen))"
    by simp
  show ?case
  proof (cases "r \<in> set seen")
    case True
    have e: "emitRow r (md, seen) = (md, seen)"
      using True by (simp add: emitRow_def)
    have "filter (\<lambda>x. x \<noteq> r \<and> x \<notin> set seen) (firstOccurrences rs)
          = filter (\<lambda>y. y \<notin> set seen) (firstOccurrences rs)"
      using True by (auto intro: filter_cong)
    with True show ?thesis
      unfolding step e Cons.IH by (simp add: conj_commute)
  next
    case False
    have e: "emitRow r (md, seen) = (md @ r, seen @ [r])"
      using False by (simp add: emitRow_def)
    have "filter (\<lambda>x. x \<noteq> r \<and> x \<notin> set seen) (firstOccurrences rs)
          = filter (\<lambda>y. y \<notin> set (seen @ [r])) (firstOccurrences rs)"
      by (auto intro: filter_cong)
    with False show ?thesis
      unfolding step e Cons.IH by (simp add: conj_commute)
  qed
qed

lemma fold_emitRow_fresh:
  "fold emitRow rs (md, []) = (md @ concat (firstOccurrences rs), firstOccurrences rs)"
  by (simp add: fold_emitRow)

lemma fold_concat_map:
  "fold f (concat (map g xs)) = fold (\<lambda>x. fold f (g x)) xs"
  by (induction xs) simp_all

lemma fold_finiteRows:
  "fold (\<lambda>np. fold (\<lambda>pf. fold (\<lambda>f. emitRow (finiteRow (fst pf) (fst np) f)) (snd pf))
                 (js_entries (snd np)))
     (js_entries numbersObj) st
   = fold emitRow (finiteRows numbersObj) st"
  by (simp add: finiteRows_def fold_concat_map fold_map comp_def)

lemma fold_nonfiniteRows:
  "fold (\<lambda>np. fold (\<lambda>pf. fold (\<lambda>f. emitRow (nonfiniteRow f)) (snd pf))
                 (js_entries (snd np)))
     (js_entries numbersObj) st
   = fold emitRow (nonfiniteRows numbersObj) st"
  by (simp add: nonfiniteRows_def fold_concat_map fold_map comp_def)

subsection \<open>The array \<^verbatim>\<open>rows\<close> is empty at the start of every bucket\<close>

lemma renderFiniteTense_table:
  "renderFiniteTense mood tn (md, []) = (md @ tenseTable mood tn, [])"
  by (simp add: renderFiniteTense_def tenseTable_def fold_finiteRows fold_emitRow_fresh
      clearRows_def)

lemma renderNonfiniteTense_table:
  "renderNonfiniteTense ''non-finite'' tn (md, []) = (md @ nonfiniteTable tn, [])"
  by (simp add: renderNonfiniteTense_def nonfiniteTable_def fold_nonfiniteRows
      fold_emitRow_fresh clearRows_def)

lemma fold_renderFiniteTense:
  "fold (renderFiniteTense mood) tns (md, []) = (md @ concat (map (tenseTable mood) tns), [])"
  by (induction tns arbitrary: md) (simp_all add: renderFiniteTense_table)

lemma fold_renderNonfiniteTense:
  "fold (renderNonfiniteTense ''non-finite'') tns (md, [])
   = (md @ concat (map nonfiniteTable tns), [])"
  by (induction tns arbitrary: md) (simp_all add: renderNonfiniteTense_table)

lemma renderMood_section:
  "renderMood mt (md, []) = (md @ moodSection mt, [])"
proof (cases "fst mt = ''non-finite''")
  case True
  then show ?thesis
    by (simp add: renderMood_def moodSection_def fold_renderNonfiniteTense Let_def)
next
  case False
  then have "(\<lambda>tn. if fst mt = ''non-finite'' then renderNonfiniteTense (fst mt) tn
                  else renderFiniteTense (fst mt) tn) = renderFiniteTense (fst mt)"
    by auto
  with False show ?thesis
    by (simp add: renderMood_def moodSection_def fold_renderFiniteTense Let_def)
qed

lemma fold_renderMood:
  "fold renderMood mts (md, []) = (md @ concat (map moodSection mts), [])"
  by (induction mts arbitrary: md) (simp_all add: renderMood_section)

lemma renderForms_complex:
  "language \<in> set complexConjugationsLanguages \<Longrightarrow> forms \<noteq> [] \<Longrightarrow>
   renderForms language forms
     = ''### Forms'' @ nl @ concat (map moodSection (js_entries (fold groupForm forms [])))
       @ nl @ nl"
  by (simp add: renderForms_def fold_renderMood)

lemma es_complex: "''es'' \<in> set complexConjugationsLanguages"
  by (simp add: complexConjugationsLanguages_def)

subsection \<open>Classification of sample forms\<close>

lemma firstSingular_classes:
  "formMood (firstSingular w ''indicative'' ''preterite'') = ''indicative''"
  "formMood (firstSingular w ''indicative'' ''present'') = ''indicative''"
  "formMood (firstSingular w ''subjunctive'' ''present'') = ''subjunctive''"
  "formMood (firstSingular w ''subjunctive'' ''imperfect'') = ''subjunctive''"
  "findTag tenses (firstSingular w ''indicative'' ''preterite'') = ''preterite''"
  "findTag tenses (firstSingular w ''indicative'' ''present'') = ''present''"
  "findTag tenses (firstSingular w ''subjunctive'' ''present'') = ''present''"
  "findTag tenses (firstSingular w ''subjunctive'' ''imperfect'') = ''imperfect''"
  "findTag numbers (firstSingular w m t) = ''singular''"
  "findTag persons (firstSingular w m t) = ''first-person''"
  by (simp_all add: formMood_def findTag_def moods_def tenses_def numbers_def persons_def)

lemma firstSingular_valid:
  "\<not> hasInvalidTag (firstSingular w ''indicative'' ''preterite'')"
  "\<not> hasInvalidTag (firstSingular w ''indicative'' ''present'')"
  "\<not> hasInvalidTag (firstSingular w ''subjunctive'' ''present'')"
  "\<not> hasInvalidTag (firstSingular w ''subjunctive'' ''imperfect'')"
  by (simp_all add: hasInvalidTag_def invalidTags_def)

lemma hable_no_keyword: "\<not> wordHasKeyword \<lparr>f_word = ''hable'', f_tags = tg\<rparr>"
  by (simp add: wordHasKeyword_def tenses_def numbers_def persons_def startsWith_def
      toLowerCase_def lowerChar_def)

lemma Present_no_keyword: "\<not> wordHasKeyword \<lparr>f_word = ''Present'', f_tags = tg\<rparr>"
  by (simp add: wordHasKeyword_def tenses_def numbers_def persons_def startsWith_def
      toLowerCase_def lowerChar_def)

lemma present_keyword: "wordHasKeyword \<lparr>f_word = ''present'', f_tags = tg\<rparr>"
  by (simp add: wordHasKeyword_def tenses_def numbers_def persons_def startsWith_def
      toLowerCase_def lowerChar_def)

lemmas js_update_simps = js_update_def js_get_def js_set_def objectPrototypeNames_def

lemma group_hable_preterite:
  "groupForm (firstSingular ''hable'' ''indicative'' ''preterite'') []
   = [(''indicative'', [(''preterite'', [(''singular'', [(''first-person'',
        [firstSingular ''hable'' ''indicative'' ''preterite''])])])])]"
  by (simp add: groupForm_def hable_no_keyword firstSingular_valid firstSingular_classes
      Let_def js_update_simps)

lemma group_Present:
  "groupForm (firstSingular ''Present'' ''indicative'' ''present'') []
   = [(''indicative'', [(''present'', [(''singular'', [(''first-person'',
        [firstSingular ''Present'' ''indicative'' ''present''])])])])]"
  by (simp add: groupForm_def Present_no_keyword firstSingular_valid firstSingular_classes
      Let_def js_update_simps)

lemma group_hable_subjunctive:
  "groupForm (firstSingular ''hable'' ''subjunctive'' ''imperfect'')
     (groupForm (firstSingular ''hable'' ''subjunctive'' ''present'')
        (groupForm (firstSingular ''hable'' ''subjunctive'' ''present'') []))
   = [(''subjunctive'',
        [(''present'', [(''singular'', [(''first-person'',
            [firstSingular ''hable'' ''subjunctive'' ''present'',
             firstSingular ''hable'' ''subjunctive'' ''present''])])]),
         (''imperfect'', [(''singular'', [(''first-person'',
            [firstSingular ''hable'' ''subjunctive'' ''imperfect''])])])])]"
  by (simp add: groupForm_def hable_no_keyword firstSingular_valid firstSingular_classes
      Let_def js_update_simps)

lemmas section_simps =
  js_entries_plain not_index_vocabulary moodSection_def tenseTable_def tenseHeading_def
  finiteRows_def finiteRow_def nl_def

subsection \<open>The sub-heading of a tense bucket\<close>

text \<open>
  A bucket of a finite mood is rendered when its tense is not empty or the mood is
  imperative, and then its sub-heading reads \<^verbatim>\<open>present\<close>.
\<close>

lemma tenseHeading_present:
  "tense \<noteq> [] \<or> mood = ''imperative'' \<Longrightarrow> tenseHeading mood tense = ''##### Tense: present'' @ nl"
  by (auto simp add: tenseHeading_def)

lemma tenseTable_skipped:
  "tense = [] \<Longrightarrow> mood \<noteq> ''imperative'' \<Longrightarrow> tenseTable mood (tense, numbersObj) = []"
  by (simp add: tenseTable_def)

text \<open>
  Claim C1. The sub-heading of an emitted tense bucket is expected to name the tense of
  the bucket. On the form \<^verbatim>\<open>hable\<close> tagged indicative, preterite, first-person and
  singular, looked up with the language code \<^verbatim>\<open>es\<close>, the renderer writes
  \<^verbatim>\<open>Tense: present\<close> above the preterite table.
\<close>

theorem renderForms_preterite_heading:
  "renderForms ''es'' [firstSingular ''hable'' ''indicative'' ''preterite'']
   = ''### Forms\<newline>#### Mood: indicative\<newline>##### Tense: present\<newline>| Person & Number | Form |\<newline>|---|---|\<newline>| first-person singular | hable |\<newline>\<newline>\<newline>\<newline>''"
  by (simp add: renderForms_complex es_complex group_hable_preterite section_simps)

subsection \<open>Keywords in the word of a form\<close>

text \<open>The word \<^verbatim>\<open>present\<close>, in lower case, is found and the form is discarded.\<close>

lemma renderForms_discards_lowercase_keyword:
  "renderForms ''es'' [firstSingular ''present'' ''indicative'' ''present'']
   = ''### Forms\<newline>\<newline>\<newline>''"
  by (simp add: renderForms_complex es_complex groupForm_def present_keyword firstSingular_valid
      js_entries_def nl_def)

text \<open>
  Claim C3. A form whose word contains the name of a tense in any letter case is
  expected to be discarded. The form with the word \<^verbatim>\<open>Present\<close> is kept: the renderer
  lowers the case of the keyword and searches the word as it is.
\<close>

theorem renderForms_keeps_capitalised_keyword:
  "renderForms ''es'' [firstSingular ''Present'' ''indicative'' ''present'']
   = ''### Forms\<newline>#### Mood: indicative\<newline>##### Tense: present\<newline>| Person & Number | Form |\<newline>|---|---|\<newline>| first-person singular | Present |\<newline>\<newline>\<newline>\<newline>''"
  by (simp add: renderForms_complex es_complex group_Present section_simps)

subsection \<open>Duplicate rows\<close>

text \<open>
  Claim C6. In the complex branch the rows already written are forgotten after every
  tense bucket: the Forms section is the sequence of the mood sections, the table of
  each tense bucket holds the distinct rows of that bucket in the order of their first
  occurrence, and no row is dropped because another bucket has written the same text.
\<close>

theorem duplicate_rows_scoped_per_tense_bucket:
  "language \<in> set complexConjugationsLanguages \<Longrightarrow> forms \<noteq> [] \<Longrightarrow>
   renderForms language forms
     = ''### Forms'' @ nl @ concat (map moodSection (js_entries (fold groupForm forms [])))
       @ nl @ nl"
  by (rule renderForms_complex)

text \<open>
  The same form twice in the present subjunctive and once in the imperfect subjunctive:
  its row is written once in the first table and again in the second.
\<close>

theorem duplicate_rows_scoped_per_tense_bucket_witness:
  "''es'' \<in> set complexConjugationsLanguages
   \<and> [firstSingular ''hable'' ''subjunctive'' ''present'',
       firstSingular ''hable'' ''subjunctive'' ''present'',
       firstSingular ''hable'' ''subjunctive'' ''imperfect''] \<noteq> []
   \<and> renderForms ''es''
        [firstSingular ''hable'' ''subjunctive'' ''present'',
         firstSingular ''hable'' ''subjunctive'' ''present'',
         firstSingular ''hable'' ''subjunctive'' ''imperfect'']
      = ''### Forms\<newline>#### Mood: subjunctive\<newline>##### Tense: present\<newline>| Person & Number | Form |\<newline>|---|---|\<newline>| first-person singular | hable |\<newline>##### Tense: present\<newline>| Person & Number | Form |\<newline>|---|---|\<newline>| first-person singular | hable |\<newline>\<newline>\<newline>\<newline>''"
  using duplicate_rows_scoped_per_tense_bucket
    [of "''es''" "[firstSingular ''hable'' ''subjunctive'' ''present'',
                   firstSingular ''hable'' ''subjunctive'' ''present'',
                   firstSingular ''hable'' ''subjunctive'' ''imperfect'']"]
  by (simp add: es_complex group_hable_subjunctive section_simps)

subsection \<open>Forms without tags\<close>

lemma fold_renderBullet:
  "fold renderBullet fs md = md @ concat (map bulletLine (filter (\<lambda>f. \<not> hasInvalidTag f) fs))"
  by (induction fs arbitrary: md) (simp_all add: renderBullet_def bulletLine_def)

lemma groupForm_no_tags: "f_tags f = [] \<Longrightarrow> groupForm f grouped = grouped"
  by (simp add: groupForm_def)

text \<open>
  Claim C10. A form without tags, anywhere in the list of forms: in the complex branch
  the section is the one rendered without it (the bare heading when it is the only
  form); in the simple branch it is rendered as the bullet \<^verbatim>\<open>- word ()\<close> between the
  bullets of the forms before it and after it.
\<close>

theorem untagged_form_by_branch:
  assumes "f_tags f = []"
  shows "renderForms language (xs @ f # ys)
     = (if language \<in> set complexConjugationsLanguages
        then (if xs @ ys = [] then ''### Forms'' @ nl @ nl @ nl
              else renderForms language (xs @ ys))
        else ''### Forms'' @ nl
             @ concat (map bulletLine (filter (\<lambda>f. \<not> hasInvalidTag f) xs))
             @ ''- '' @ f_word f @ '' ()'' @ nl
             @ concat (map bulletLine (filter (\<lambda>f. \<not> hasInvalidTag f) ys))
             @ nl @ nl)"
proof (cases "language \<in> set complexConjugationsLanguages")
  case True
  have "fold groupForm (xs @ f # ys) [] = fold groupForm (xs @ ys) []"
    using assms by (simp add: groupForm_no_tags)
  with True show ?thesis
    by (simp add: renderForms_def js_entries_def)
next
  case False
  have "\<not> hasInvalidTag f" "bulletLine f = ''- '' @ f_word f @ '' ()'' @ nl"
    using assms by (simp_all add: hasInvalidTag_def bulletLine_def)
  with False assms show ?thesis
    by (simp add: renderForms_def fold_renderBullet renderBullet_def)
qed

theorem untagged_form_by_branch_witness:
  "f_tags \<lparr>f_word = ''running'', f_tags = []\<rparr> = []
   \<and> renderForms ''en'' [\<lparr>f_word = ''running'', f_tags = []\<rparr>]
       = ''### Forms\<newline>- running ()\<newline>\<newline>\<newline>''
   \<and> renderForms ''es'' [\<lparr>f_word = ''running'', f_tags = []\<rparr>]
       = ''### Forms\<newline>\<newline>\<newline>''"
  using untagged_form_by_branch [of "\<lparr>f_word = ''running'', f_tags = []\<rparr>" "''en''" "[]" "[]"]
    untagged_form_by_branch [of "\<lparr>f_word = ''running'', f_tags = []\<rparr>" "''es''" "[]" "[]"]
  by (simp add: complexConjugationsLanguages_def nl_def)

section \<open>The favorites store\<close>

lemma formatText_Run: "formatText ''Run'' = ''run''" "formatText ''en'' = ''en''"
  by (simp_all add: formatText_def trim_def isWhiteSpace_def toLowerCase_def lowerChar_def char_of_eq_iff
      startsWith_def)

text \<open>An entry whose stored language and word equal the arguments is not added again.\<close>

lemma addEntry_exact_match_unchanged:
  "list_ex (\<lambda>fav. fav_language fav = language \<and> fav_word fav = word) (getEntries storage) \<Longrightarrow>
   addEntry localeCompare storage language word markdown url = storage"
  by (auto simp add: addEntry_def Let_def find_None_iff list_ex_iff)

text \<open>
  Claim C9. No two stored entries are expected to share the language and the word,
  compared after trimming and lowering the case. \<^verbatim>\<open>addEntry\<close> looks for the arguments
  as they are given and stores them formatted: with \<^verbatim>\<open>("en", "run")\<close> stored, adding
  \<^verbatim>\<open>("en", "Run")\<close> stores \<^verbatim>\<open>("en", "run")\<close> a second time, whatever the locale order.
\<close>

theorem addEntry_stores_duplicate:
  "map (\<lambda>fav. (fav_language fav, fav_word fav))
     (getEntries
        (addEntry localeCompare
           (Some [\<lparr>fav_language = ''en'', fav_word = ''run'', fav_markdown = m, fav_url = u\<rparr>])
           ''en'' ''Run'' m' u'))
   = [(''en'', ''run''), (''en'', ''run'')]"
  by (simp add: addEntry_def getEntries_def formatText_Run sortBy_def Let_def)

section \<open>Properties of the sense renderer\<close>

lemma repeat_spaces: "repeat ''    '' n = spaces (4 * n)"
proof (induction n)
  case 0
  then show ?case by (simp add: spaces_def)
next
  case (Suc n)
  have "replicate (4 * Suc n) CHR '' '' = replicate 4 CHR '' '' @ replicate (4 * n) CHR '' ''"
    by (simp add: replicate_add)
  moreover have "replicate 4 CHR '' '' = ''    ''"
    by (simp add: numeral_eq_Suc)
  ultimately show ?case
    using Suc by (simp add: spaces_def)
qed

lemma renderSubsenses_Nil [simp]: "renderSubsenses [] indent = []"
  by (simp add: renderSubsenses_def)

lemma subsenseLines_eq:
  "subsenseLines prefix idx s subMd
   = subMd @ prefix @ string_of_nat (idx + 1) @ ''. '' @ s_definition s @ nl @ nestedFields prefix s"
  by (simp add: subsenseLines_def nestedFields_def Let_def)

lemma subsensesLoop_eq:
  "subsensesLoop indent len idx ss subMd
   = subMd @ concat (map (subsenseItem indent len) (enumerate idx ss))"
proof (induction ss arbitrary: idx subMd)
  case Nil
  then show ?case by simp
next
  case (Cons s ss)
  show ?case
    by (cases s)
      (simp add: Cons.IH subsenseLines_eq subsenseItem_def repeat_spaces renderSubsenses_def)
qed

lemma senseStep_eq: "senseStep len j t md = md @ senseItem len (j, t)"
  by (simp add: senseStep_def senseItem_def topFields_def Let_def)

lemma sensesLoop_eq:
  "sensesLoop len j ss md = md @ concat (map (senseItem len) (enumerate j ss))"
  by (induction ss arbitrary: j md) (simp_all add: senseStep_eq)

text \<open>
  Claim C4. Every level of the sense tree numbers its own list from 1 in input order:
  the rendering of a subsense list at level \<open>indent\<close> is the sequence of its items, the
  item at position \<open>i\<close> starting with \<open>4 * indent\<close> spaces and the number \<open>i + 1\<close>, and the
  subsenses of an item are rendered by the same function one level deeper, so four
  spaces further right. The top-level loop numbers in the same way, without
  indentation, and renders the subsenses of a top-level sense at level 2.
\<close>

theorem subsense_numbering_and_indentation:
  "renderSubsenses ss indent = concat (map (subsenseItem indent (length ss)) (enumerate 0 ss))
   \<and> renderSenses ts
       = (if ts = [] then []
          else ''### Senses'' @ nl @ concat (map (senseItem (length ts)) (enumerate 0 ts)))"
  by (simp add: renderSubsenses_def subsensesLoop_eq renderSenses_def sensesLoop_eq)

lemma string_of_nat_digits:
  "string_of_nat (Suc 0) = ''1''" "string_of_nat (Suc (Suc 0)) = ''2''"
  by (simp_all add: string_of_nat.simps char_of_eq_iff)

lemma spaces_literals: "spaces 8 = ''        ''" "spaces 12 = ''            ''"
  by (simp_all add: spaces_def eval_nat_numeral)

text \<open>
  A sense with two subsenses, the second with one subsense of its own.
\<close>

theorem subsense_numbering_and_indentation_witness:
  "renderSenses [bare ''def'' [bare ''sub1'' [], bare ''sub2'' [bare ''subsub1'' []]]]
   = ''### Senses\<newline>1. def\<newline>        1. sub1\<newline>        2. sub2\<newline>            1. subsub1\<newline>\<newline>\<newline>\<newline>\<newline>''"
proof -
  note items = senseItem_def subsenseItem_def topFields_def nestedFields_def spaces_literals
    string_of_nat_digits nl_def
  have level3: "renderSubsenses [bare ''subsub1'' []] 3 = ''            1. subsub1\<newline>\<newline>''"
    by (simp add: conjunct1 [OF subsense_numbering_and_indentation] items)
  have level2: "renderSubsenses [bare ''sub1'' [], bare ''sub2'' [bare ''subsub1'' []]] 2
                = ''        1. sub1\<newline>        2. sub2\<newline>            1. subsub1\<newline>\<newline>\<newline>''"
    by (simp add: conjunct1 [OF subsense_numbering_and_indentation] items level3)
  show ?thesis
    by (simp add: conjunct2 [OF subsense_numbering_and_indentation] items level2)
qed

section \<open>The closing replacement of \<^verbatim>\<open>renderMarkdown\<close>\<close>

lemma collapse_simps:
  "replaceAll ''..'' ''.'' [x] = [x]"
  "replaceAll ''..'' ''.'' (x # y # r)
   = (if x = CHR ''.'' \<and> y = CHR ''.'' then CHR ''.'' # replaceAll ''..'' ''.'' r
      else x # replaceAll ''..'' ''.'' (y # r))"
  by (simp_all add: startsWith_def)

lemma take1_collapse: "take (Suc 0) (replaceAll ''..'' ''.'' s) = take (Suc 0) s"
  by (induction s rule: induct_list012) (simp_all add: startsWith_def)

lemma has2_simps:
  "includesStr [] ''..'' = False"
  "includesStr (x # s) ''..'' = ((x = CHR ''.'' \<and> take 1 s = ''.'') \<or> includesStr s ''..'')"
  by (auto simp add: startsWith_def)

lemma has3_simps:
  "includesStr [] ''...'' = False"
  "includesStr (x # s) ''...'' = ((x = CHR ''.'' \<and> take 2 s = ''..'') \<or> includesStr s ''...'')"
  by (auto simp add: startsWith_def numeral_2_eq_2)

lemma take2_take1: "take 2 s = ''..'' \<Longrightarrow> take 1 s = ''.''"
  by (cases s) auto

lemma collapse_has2:
  "includesStr (replaceAll ''..'' ''.'' s) ''..'' = includesStr s ''...''"
proof (induction s rule: induct_list012)
  case 1
  then show ?case by simp
next
  case (2 x)
  then show ?case
    by (simp add: collapse_simps has2_simps has3_simps del: replaceAll.simps includesStr.simps)
next
  case (3 x y zs)
  show ?case
  proof (cases "x = CHR ''.'' \<and> y = CHR ''.''")
    case True
    then show ?thesis
      using 3 take2_take1 [of zs]
      by (auto simp add: collapse_simps has2_simps has3_simps take1_collapse simp del: replaceAll.simps includesStr.simps)
  next
    case False
    then show ?thesis
      using 3 take1_collapse [of "y # zs"]
      by (auto simp add: collapse_simps has2_simps has3_simps simp del: replaceAll.simps includesStr.simps)
  qed
qed

text \<open>
  Claim C7, as the code has it. The returned text is the rendered text with every
  \<^verbatim>\<open>..\<close> found in one pass from left to right replaced by one period; it contains
  \<^verbatim>\<open>..\<close> exactly when the rendered text contains three periods in a row.
\<close>

theorem double_period_collapse:
  "document language entry = Inr raw \<Longrightarrow>
   renderMarkdown language entry = Inr (replaceAll ''..'' ''.'' raw)
   \<and> (includesStr (replaceAll ''..'' ''.'' raw) ''..'' \<longleftrightarrow> includesStr raw ''...'')"
  by (simp add: renderMarkdown_def collapse_has2 del: replaceAll.simps includesStr.simps)

theorem double_period_collapse_witness:
  "document ''en'' (recordOf ''etc..'' []) = Inr ''# Etc..\<newline>Source: [u](u)\<newline>\<newline>''
   \<and> renderMarkdown ''en'' (recordOf ''etc..'' []) = Inr ''# Etc.\<newline>Source: [u](u)\<newline>\<newline>''
   \<and> \<not> includesStr ''# Etc.\<newline>Source: [u](u)\<newline>\<newline>'' ''..''"
proof -
  have d: "document ''en'' (recordOf ''etc..'' []) = Inr ''# Etc..\<newline>Source: [u](u)\<newline>\<newline>''"
    by (simp add: document_def js_values_def js_entries_def header_def
      urlWord_def capitalize_def toUpperCase_def upperChar_def char_of_eq_iff startsWith_def
      nl_def)
  have c: "replaceAll ''..'' ''.'' ''# Etc..\<newline>Source: [u](u)\<newline>\<newline>'' = ''# Etc.\<newline>Source: [u](u)\<newline>\<newline>''"
    by (simp add: startsWith_def)
  have n: "\<not> includesStr ''# Etc..\<newline>Source: [u](u)\<newline>\<newline>'' ''...''"
    by (simp add: startsWith_def)
  from double_period_collapse [OF d] c n d show ?thesis by simp
qed

text \<open>
  Claim C7, as stated, fails on a headword that ends in an ellipsis: of three periods
  the pass replaces the first two and keeps the third.
\<close>

theorem double_period_survives_counterexample:
  "renderMarkdown ''en'' (recordOf ''wait...'' [])
   = Inr ''# Wait..\<newline>Source: [u](u)\<newline>\<newline>''
   \<and> includesStr ''# Wait..\<newline>Source: [u](u)\<newline>\<newline>'' ''..''"
  by (simp add: renderMarkdown_def document_def js_values_def js_entries_def header_def
      urlWord_def capitalize_def toUpperCase_def upperChar_def char_of_eq_iff startsWith_def
      nl_def)

section \<open>Grouping by key\<close>

lemma groupAll_append:
  "groupAll init add (xs @ ys) obj =
     (case groupAll init add xs obj of Inl err \<Rightarrow> Inl err | Inr obj' \<Rightarrow> groupAll init add ys obj')"
  by (induction xs arbitrary: obj) (simp_all split: sum.splits)

lemma map_of_groupedBy:
  "map_of (groupedBy init add stream) k
   = (if k \<in> fst ` set stream then Some (merged init add (itemsOf k stream)) else None)"
  by (simp add: groupedBy_def map_of_map_restrict restrict_map_def)

lemma keys_groupedBy: "map fst (groupedBy init add stream) = firstOccurrences (map fst stream)"
  by (simp add: groupedBy_def comp_def)

lemma itemsOf_snoc:
  "itemsOf k (xs @ [(k', x)]) = (if k' = k then itemsOf k xs @ [x] else itemsOf k xs)"
  by (simp add: itemsOf_def)

lemma itemsOf_empty: "itemsOf k xs = [] \<longleftrightarrow> k \<notin> fst ` set xs"
  by (auto simp add: itemsOf_def filter_empty_conv)

lemma merged_snoc: "ys \<noteq> [] \<Longrightarrow> merged init add (ys @ [x]) = add (merged init add ys) x"
  by (cases ys) (simp_all add: merged_def)

lemma merged_single: "merged init add [x] = init x"
  by (simp add: merged_def)

lemma groupAll_groupedBy:
  "list_all (\<lambda>kx. fst kx \<notin> set objectPrototypeNames) stream \<Longrightarrow>
   groupAll init add stream [] = Inr (groupedBy init add stream)"
proof (induction stream rule: rev_induct)
  case Nil
  then show ?case by (simp add: groupedBy_def)
next
  case (snoc kx xs)
  obtain k x where kx: "kx = (k, x)" by (cases kx)
  from snoc have IH: "groupAll init add xs [] = Inr (groupedBy init add xs)"
    and k: "k \<notin> set objectPrototypeNames"
    by (simp_all add: kx)
  show ?case
  proof (cases "k \<in> fst ` set xs")
    case True
    then have ne: "itemsOf k xs \<noteq> []" by (simp add: itemsOf_empty)
    have "js_set (groupedBy init add xs) k (add (merged init add (itemsOf k xs)) x)
          = groupedBy init add (xs @ [(k, x)])"
      using True ne
      by (simp add: js_set_def keys_groupedBy groupedBy_def firstOccurrences_snoc itemsOf_snoc
          merged_snoc comp_def)
    with True show ?thesis
      by (simp add: groupAll_append IH kx groupStep_def js_get_def map_of_groupedBy)
  next
    case False
    then have e: "itemsOf k xs = []" by (simp add: itemsOf_empty)
    have "\<And>k'. k' \<in> set (firstOccurrences (map fst xs)) \<Longrightarrow> k' \<noteq> k"
      using False by auto
    then have "js_set (groupedBy init add xs) k (init x) = groupedBy init add (xs @ [(k, x)])"
      using False e
      by (auto simp add: js_set_def keys_groupedBy groupedBy_def firstOccurrences_snoc
          itemsOf_snoc merged_single)
    with False k show ?thesis
      by (simp add: groupAll_append IH kx groupStep_def js_get_def map_of_groupedBy)
  qed
qed


lemmas js_object_simps = js_get_def js_set_def objectPrototypeNames_def

lemma index_keys:
  "isArrayIndex ''1''" "isArrayIndex ''2''" "digitsValue ''1'' = 1" "digitsValue ''2'' = 2"
  by (simp_all add: isArrayIndex_def isDigit_def digitsValue_def)

lemma plain_sample_keys: "plainKey ''UK''" "plainKey ''US''" "plainKey ''noun''" "plainKey ''verb''"
  by (simp_all add: plainKey_def isArrayIndex_def isDigit_def objectPrototypeNames_def)

subsection \<open>Grouping the entries by part of speech\<close>

lemma groupEntry_groupStep:
  "groupEntry e obj = groupStep newGroup extendGroup (e_partOfSpeech e, e) obj"
  by (simp add: groupEntry_def groupStep_def newGroup_def extendGroup_def split: js_lookup.splits)

lemma groupEntries_groupAll:
  "groupEntries es obj = groupAll newGroup extendGroup (keyed es) obj"
  by (induction es arbitrary: obj) (simp_all add: keyed_def groupEntry_groupStep split: sum.splits)

lemma foldl_extendGroup:
  "foldl extendGroup g es
   = g\<lparr>g_pronunciations := g_pronunciations g @ concat (map e_pronunciations es),
       g_forms := g_forms g @ concat (map e_forms es),
       g_senses := g_senses g @ concat (map e_senses es)\<rparr>"
  by (induction es arbitrary: g) (simp_all add: extendGroup_def)

lemma itemsOf_keyed: "itemsOf k (keyed es) = entriesOf k es"
  by (induction es) (simp_all add: itemsOf_def keyed_def entriesOf_def)

lemma hd_entriesOf: "entriesOf k es \<noteq> [] \<Longrightarrow> e_partOfSpeech (hd (entriesOf k es)) = k"
  unfolding entriesOf_def by (induction es) auto

lemma merged_entries:
  "k \<in> e_partOfSpeech ` set es \<Longrightarrow>
   merged newGroup extendGroup (itemsOf k (keyed es)) = mergedEntry es k"
proof -
  assume "k \<in> e_partOfSpeech ` set es"
  then have ne: "entriesOf k es \<noteq> []"
    by (auto simp add: entriesOf_def filter_empty_conv)
  then obtain e rest where er: "entriesOf k es = e # rest"
    by (cases "entriesOf k es") auto
  with hd_entriesOf [OF ne] have "e_partOfSpeech e = k" by simp
  then show ?thesis
    by (simp add: itemsOf_keyed merged_def er foldl_extendGroup newGroup_def mergedEntry_def)
qed

lemma groupedBy_entries:
  "groupedBy newGroup extendGroup (keyed es)
   = map (\<lambda>k. (k, mergedEntry es k)) (firstOccurrences (map e_partOfSpeech es))"
proof -
  have keys: "map fst (keyed es) = map e_partOfSpeech es"
    by (simp add: keyed_def comp_def)
  show ?thesis
    unfolding groupedBy_def keys
    by (rule map_cong) (auto intro: merged_entries)
qed

lemma js_values_plain:
  "list_all (\<lambda>k. \<not> isArrayIndex k) ks \<Longrightarrow> js_values (map (\<lambda>k. (k, f k)) ks) = map f ks"
  by (simp add: js_values_def js_entries_def list_all_iff comp_def)

text \<open>
  Claim C2, as the code has it. When no part-of-speech tag is an array index or the name
  of a property inherited from \<^verbatim>\<open>Object.prototype\<close>, the sections rendered are those of
  the distinct tags in the order of their first occurrence, and the group of a tag
  holds the pronunciations, forms and senses of all the entries with that tag,
  concatenated in input order.
\<close>

theorem grouping_by_part_of_speech:
  "list_all (\<lambda>e. plainKey (e_partOfSpeech e)) (d_entries entry) \<Longrightarrow>
   document language entry
     = renderSections language
         (map (mergedEntry (d_entries entry))
            (firstOccurrences (map e_partOfSpeech (d_entries entry))))
         (header entry)"
proof -
  assume plain: "list_all (\<lambda>e. plainKey (e_partOfSpeech e)) (d_entries entry)"
  then have "list_all (\<lambda>kx. fst kx \<notin> set objectPrototypeNames) (keyed (d_entries entry))"
    by (simp add: list_all_iff keyed_def plainKey_def)
  then have g: "groupEntries (d_entries entry) []
                = Inr (map (\<lambda>k. (k, mergedEntry (d_entries entry) k))
                         (firstOccurrences (map e_partOfSpeech (d_entries entry))))"
    by (simp add: groupEntries_groupAll groupAll_groupedBy groupedBy_entries)
  have "list_all (\<lambda>k. \<not> isArrayIndex k) (firstOccurrences (map e_partOfSpeech (d_entries entry)))"
    using plain by (simp add: list_all_iff plainKey_def)
  then show ?thesis
    by (simp add: document_def g js_values_plain)
qed

text \<open>
  Two noun entries around a verb entry: one noun section with the senses of both,
  before the verb section.
\<close>

theorem grouping_by_part_of_speech_witness:
  "list_all (\<lambda>e. plainKey (e_partOfSpeech e))
     (d_entries (recordOf ''run''
        [entryOf ''noun'' [bare ''a'' []], entryOf ''verb'' [bare ''b'' []],
         entryOf ''noun'' [bare ''c'' []]]))
   \<and> g_senses (mergedEntry
        [entryOf ''noun'' [bare ''a'' []], entryOf ''verb'' [bare ''b'' []],
         entryOf ''noun'' [bare ''c'' []]] ''noun'')
      = [bare ''a'' [], bare ''c'' []]
   \<and> document ''en'' (recordOf ''run''
        [entryOf ''noun'' [bare ''a'' []], entryOf ''verb'' [bare ''b'' []],
         entryOf ''noun'' [bare ''c'' []]])
      = Inr ''# Run\<newline>Source: [u](u)\<newline>\<newline>## Noun\<newline>### Senses\<newline>1. a\<newline>2. c\<newline>\<newline>\<newline>## Verb\<newline>### Senses\<newline>1. b\<newline>\<newline>\<newline>''"
proof -
  let ?es = "[entryOf ''noun'' [bare ''a'' []], entryOf ''verb'' [bare ''b'' []],
              entryOf ''noun'' [bare ''c'' []]]"
  let ?en = "\<lparr>l_code = ''en'', l_name = ''English''\<rparr>"
  let ?noun = "\<lparr>g_language = ?en, g_partOfSpeech = ''noun'', g_pronunciations = [],
                g_forms = [], g_senses = [bare ''a'' [], bare ''c'' []]\<rparr>"
  let ?verb = "\<lparr>g_language = ?en, g_partOfSpeech = ''verb'', g_pronunciations = [],
                g_forms = [], g_senses = [bare ''b'' []]\<rparr>"
  have plain: "list_all (\<lambda>e. plainKey (e_partOfSpeech e)) (d_entries (recordOf ''run'' ?es))"
    by (simp add: plain_sample_keys)
  have groups: "map (mergedEntry ?es) (firstOccurrences (map e_partOfSpeech ?es)) = [?noun, ?verb]"
    by (simp add: mergedEntry_def entriesOf_def)
  have noun: "renderSenses [bare ''a'' [], bare ''c'' []] = ''### Senses\<newline>1. a\<newline>2. c\<newline>\<newline>\<newline>''"
    by (simp add: renderSenses_def senseStep_def string_of_nat_digits nl_def Let_def)
  have verb: "renderSenses [bare ''b'' []] = ''### Senses\<newline>1. b\<newline>\<newline>\<newline>''"
    by (simp add: renderSenses_def senseStep_def string_of_nat_digits nl_def Let_def)
  have h: "header (recordOf ''run'' ?es) = ''# Run\<newline>Source: [u](u)\<newline>\<newline>''"
    by (simp add: header_def urlWord_def capitalize_def toUpperCase_def upperChar_def
        char_of_eq_iff startsWith_def nl_def)
  have sections: "renderSections ''en'' [?noun, ?verb] ''# Run\<newline>Source: [u](u)\<newline>\<newline>''
        = Inr ''# Run\<newline>Source: [u](u)\<newline>\<newline>## Noun\<newline>### Senses\<newline>1. a\<newline>2. c\<newline>\<newline>\<newline>## Verb\<newline>### Senses\<newline>1. b\<newline>\<newline>\<newline>''"
    by (simp add: renderSection_def renderPronunciations_def renderForms_def noun verb
        capitalize_def toUpperCase_def upperChar_def char_of_eq_iff nl_def)
  have "document ''en'' (recordOf ''run'' ?es)
        = renderSections ''en'' (map (mergedEntry ?es) (firstOccurrences (map e_partOfSpeech ?es)))
            (header (recordOf ''run'' ?es))"
    using grouping_by_part_of_speech [OF plain, of "''en''"]
    by (simp only: dictionary_entry.select_convs)
  also have "\<dots> = renderSections ''en'' [?noun, ?verb] ''# Run\<newline>Source: [u](u)\<newline>\<newline>''"
    by (simp only: groups h)
  finally have "document ''en'' (recordOf ''run'' ?es)
        = Inr ''# Run\<newline>Source: [u](u)\<newline>\<newline>## Noun\<newline>### Senses\<newline>1. a\<newline>2. c\<newline>\<newline>\<newline>## Verb\<newline>### Senses\<newline>1. b\<newline>\<newline>\<newline>''"
    by (simp only: sections)
  moreover have "g_senses (mergedEntry ?es ''noun'') = [bare ''a'' [], bare ''c'' []]"
    by (simp add: mergedEntry_def entriesOf_def)
  ultimately show ?thesis
    using plain by (simp only: simp_thms)
qed

text \<open>
  Claim C2, as stated, fails on tags that are array indices: the section of the tag
  \<^verbatim>\<open>1\<close> is rendered before the section of the tag \<^verbatim>\<open>2\<close> that was met first.
\<close>

theorem grouping_order_counterexample:
  "renderMarkdown ''en'' (recordOf ''w'' [entryOf ''2'' [], entryOf ''1'' []])
   = Inr ''# W\<newline>Source: [u](u)\<newline>\<newline>## 1\<newline>## 2\<newline>''"
proof -
  let ?g2 = "\<lparr>g_language = \<lparr>l_code = ''en'', l_name = ''English''\<rparr>, g_partOfSpeech = ''2'',
              g_pronunciations = [], g_forms = [], g_senses = []\<rparr>"
  let ?g1 = "\<lparr>g_language = \<lparr>l_code = ''en'', l_name = ''English''\<rparr>, g_partOfSpeech = ''1'',
              g_pronunciations = [], g_forms = [], g_senses = []\<rparr>"
  have g: "groupEntries [entryOf ''2'' [], entryOf ''1'' []] [] = Inr [(''2'', ?g2), (''1'', ?g1)]"
    by (simp add: groupEntry_def js_object_simps)
  have v: "js_values [(''2'', ?g2), (''1'', ?g1)] = [?g1, ?g2]"
    by (simp add: js_values_def js_entries_def index_keys sort_key_def)
  have h: "header (recordOf ''w'' [entryOf ''2'' [], entryOf ''1'' []])
           = ''# W\<newline>Source: [u](u)\<newline>\<newline>''"
    by (simp add: header_def urlWord_def capitalize_def toUpperCase_def upperChar_def
        char_of_eq_iff startsWith_def nl_def)
  have s: "renderSections ''en'' [?g1, ?g2] ''# W\<newline>Source: [u](u)\<newline>\<newline>''
           = Inr ''# W\<newline>Source: [u](u)\<newline>\<newline>## 1\<newline>## 2\<newline>''"
    by (simp add: renderSection_def renderPronunciations_def renderSenses_def renderForms_def
        capitalize_def toUpperCase_def upperChar_def nl_def)
  have "document ''en'' (recordOf ''w'' [entryOf ''2'' [], entryOf ''1'' []])
        = Inr ''# W\<newline>Source: [u](u)\<newline>\<newline>## 1\<newline>## 2\<newline>''"
    unfolding document_def by (simp add: g v h s del: groupEntries.simps renderSections.simps)
  then show ?thesis
    by (simp add: renderMarkdown_def startsWith_def)
qed

subsection \<open>Grouping the pronunciations by dialect tag\<close>

lemma addToBucket_groupStep:
  "addToBucket tag p obj = groupStep newBucket extendBucket (tag, p) obj"
  by (simp add: addToBucket_def groupStep_def newBucket_def extendBucket_def
      split: js_lookup.splits)

lemma groupTags_groupAll:
  "groupTags tags p obj = groupAll newBucket extendBucket (map (\<lambda>tag. (tag, p)) tags) obj"
  by (induction tags arbitrary: obj) (simp_all add: addToBucket_groupStep split: sum.splits)

lemma groupPronunciation_groupAll:
  "groupPronunciation p obj
   = groupAll newBucket extendBucket (map (\<lambda>tag. (tag, p)) (bucketKeys p)) obj"
  by (simp add: groupPronunciation_def bucketKeys_def groupTags_groupAll addToBucket_groupStep
      split: sum.splits)

lemma groupPronunciations_groupAll:
  "groupPronunciations ps obj = groupAll newBucket extendBucket (assignments ps) obj"
  by (induction ps arbitrary: obj)
    (simp_all add: assignments_def groupPronunciation_groupAll groupAll_append split: sum.splits)

lemma foldl_extendBucket:
  "foldl extendBucket g ps = g\<lparr>pg_text := pg_text g @ map p_text ps\<rparr>"
  by (induction ps arbitrary: g) (simp_all add: extendBucket_def)

lemma merged_bucket:
  "ps \<noteq> [] \<Longrightarrow>
   merged newBucket extendBucket ps = \<lparr>pg_type = p_type (hd ps), pg_text = map p_text ps\<rparr>"
  by (cases ps) (simp_all add: merged_def foldl_extendBucket newBucket_def)

lemma pronunciationRow_bucket:
  "k \<in> fst ` set (assignments ps) \<Longrightarrow>
   pronunciationRow (k, merged newBucket extendBucket (itemsOf k (assignments ps))) = bucketRow ps k"
  by (simp add: pronunciationRow_def bucketRow_def merged_bucket itemsOf_empty)

lemma fold_pronunciationRow:
  "fold (\<lambda>rg md. md @ pronunciationRow rg) rgs md = md @ concat (map pronunciationRow rgs)"
  by (induction rgs arbitrary: md) simp_all

lemma plainKey_sentinel: "plainKey ''-''"
  by (simp add: plainKey_def isArrayIndex_def isDigit_def objectPrototypeNames_def)

lemma assignments_keys:
  "list_all (\<lambda>p. list_all plainKey (p_tags p)) ps \<Longrightarrow>
   list_all (\<lambda>kx. plainKey (fst kx)) (assignments ps)"
  by (auto simp add: assignments_def bucketKeys_def plainKey_sentinel list_all_iff
      split: if_splits)

lemma assignments_nonempty: "ps \<noteq> [] \<Longrightarrow> assignments ps \<noteq> []"
  by (cases ps) (simp_all add: assignments_def bucketKeys_def)

text \<open>
  Claim C5, as the code has it. For a sequence of pronunciations that is not empty and
  whose tags are neither array indices nor names of properties inherited from
  \<^verbatim>\<open>Object.prototype\<close>, the table has one row per distinct bucket key in the order of
  first occurrence, where a pronunciation is assigned to each of its tags, or to
  \<^verbatim>\<open>-\<close> when it has none; the row of a key joins the texts assigned to it with a
  comma and a space, and shows the type of the first pronunciation assigned to it.
\<close>

theorem pronunciation_table_rows:
  assumes "pronunciations \<noteq> []"
    and "list_all (\<lambda>p. list_all plainKey (p_tags p)) pronunciations"
  shows "renderPronunciations pronunciations
     = Inr (''| Dialect | Pronunciation | Phonetic System | '' @ nl @ ''|---|---|---|'' @ nl
            @ concat (map (bucketRow pronunciations)
                        (firstOccurrences (map fst (assignments pronunciations))))
            @ nl @ nl)"
proof -
  let ?stream = "assignments pronunciations"
  let ?grouped = "groupedBy newBucket extendBucket ?stream"
  have plain: "list_all (\<lambda>kx. plainKey (fst kx)) ?stream"
    using assms(2) by (rule assignments_keys)
  then have "list_all (\<lambda>kx. fst kx \<notin> set objectPrototypeNames) ?stream"
    by (simp add: list_all_iff plainKey_def)
  then have g: "groupPronunciations pronunciations [] = Inr ?grouped"
    by (simp add: groupPronunciations_groupAll groupAll_groupedBy)
  have "list_all (\<lambda>kv. \<not> isArrayIndex (fst kv)) ?grouped"
    using plain by (auto simp add: list_all_iff groupedBy_def plainKey_def)
  then have e: "js_entries ?grouped = ?grouped"
    by (rule js_entries_plain)
  have ne: "?grouped \<noteq> []"
    using assignments_nonempty [OF assms(1)]
    by (cases ?stream) (simp_all add: groupedBy_def)
  have rows: "map pronunciationRow ?grouped
              = map (bucketRow pronunciations) (firstOccurrences (map fst ?stream))"
    unfolding groupedBy_def map_map
    by (rule map_cong) (auto simp add: pronunciationRow_bucket)
  show ?thesis
    using assms(1) ne
    by (simp add: renderPronunciations_def g e fold_pronunciationRow rows)
qed

theorem pronunciation_table_rows_witness:
  "[pron ''IPA'' ''fu:'' [''UK'', ''US''], pron ''X-SAMPA'' ''fu'' [''US''], pron ''IPA'' ''f'' []] \<noteq> []
   \<and> list_all (\<lambda>p. list_all plainKey (p_tags p))
        [pron ''IPA'' ''fu:'' [''UK'', ''US''], pron ''X-SAMPA'' ''fu'' [''US''], pron ''IPA'' ''f'' []]
   \<and> renderPronunciations
        [pron ''IPA'' ''fu:'' [''UK'', ''US''], pron ''X-SAMPA'' ''fu'' [''US''], pron ''IPA'' ''f'' []]
      = Inr ''| Dialect | Pronunciation | Phonetic System | \<newline>|---|---|---|\<newline>| UK | fu: | IPA |\<newline>| US | fu:, fu | IPA |\<newline>| - | f | IPA |\<newline>\<newline>\<newline>''"
  using pronunciation_table_rows [of "[pron ''IPA'' ''fu:'' [''UK'', ''US''], pron ''X-SAMPA'' ''fu'' [''US''],
                 pron ''IPA'' ''f'' []]"]
  by (simp add: plain_sample_keys assignments_def bucketKeys_def bucketRow_def itemsOf_def nl_def)

text \<open>
  Claim C5, as stated, fails on tags that are array indices: the row of the tag \<^verbatim>\<open>1\<close>
  comes before the row of the tag \<^verbatim>\<open>2\<close> that was met first.
\<close>

theorem pronunciation_order_counterexample:
  "renderPronunciations [pron ''IPA'' ''a'' [''2''], pron ''IPA'' ''b'' [''1'']]
   = Inr ''| Dialect | Pronunciation | Phonetic System | \<newline>|---|---|---|\<newline>| 1 | b | IPA |\<newline>| 2 | a | IPA |\<newline>\<newline>\<newline>''"
proof -
  have g: "groupPronunciations [pron ''IPA'' ''a'' [''2''], pron ''IPA'' ''b'' [''1'']] []
           = Inr [(''2'', \<lparr>pg_type = ''IPA'', pg_text = [''a'']\<rparr>),
                  (''1'', \<lparr>pg_type = ''IPA'', pg_text = [''b'']\<rparr>)]"
    by (simp add: groupPronunciation_def addToBucket_def js_object_simps)
  have e: "js_entries [(''2'', \<lparr>pg_type = ''IPA'', pg_text = [''a'']\<rparr>),
                       (''1'', \<lparr>pg_type = ''IPA'', pg_text = [''b'']\<rparr>)]
           = [(''1'', \<lparr>pg_type = ''IPA'', pg_text = [''b'']\<rparr>),
              (''2'', \<lparr>pg_type = ''IPA'', pg_text = [''a'']\<rparr>)]"
    by (simp add: js_entries_def index_keys sort_key_def)
  show ?thesis
    by (simp add: renderPronunciations_def g e pronunciationRow_def nl_def
        del: groupPronunciations.simps)
qed

end
